theory Spec2Isabelle
  imports Main
begin

section \<open>Shared metrics publisher of the Outline server (shared_metrics.ts)\<close>

text \<open>
  A JavaScript string is modelled by a HOL \<open>string\<close>: a sequence of code units, here
  restricted to the units below 256 (one \<open>char\<close> each). Strings are only compared,
  copied and measured by the code, so nothing else about them is needed. A JavaScript
  number that holds a byte count or a timestamp is an \<open>int\<close>.
\<close>

subsection \<open>Data model\<close>

text \<open>\<open>const SANCTIONED_COUNTRIES = new Set(['CU', 'KP', 'SY'])\<close>\<close>

definition SANCTIONED_COUNTRIES :: "string set" where
  "SANCTIONED_COUNTRIES = {''CU'', ''KP'', ''SY''}"

text \<open>\<open>interface KeyUsage\<close>\<close>

record KeyUsage =
  accessKeyId :: string
  countries :: "string list"
  inboundBytes :: int

text \<open>
  \<open>interface HourlyUserMetricsReportJson\<close>, the fields in the order in which the object
  literal of \<open>reportServerUsageMetrics\<close> creates them. Field names that several
  interfaces share are written with the record's name in front, as in
  \<open>KeyUsage.countries\<close> and \<open>HourlyUserMetricsReportJson.countries\<close>.
\<close>

record HourlyUserMetricsReportJson =
  userId :: string
  bytesTransferred :: int
  countries :: "string list"

text \<open>\<open>interface HourlyServerMetricsReportJson\<close>\<close>

record HourlyServerMetricsReportJson =
  serverId :: string
  startUtcMs :: int
  endUtcMs :: int
  userReports :: "HourlyUserMetricsReportJson list"

text \<open>\<open>interface DailyDataLimitMetricsReportJson\<close> and
  \<open>interface DailyFeatureMetricsReportJson\<close>\<close>

record DailyDataLimitMetricsReportJson =
  enabled :: bool

record DailyFeatureMetricsReportJson =
  serverId :: string
  serverVersion :: string
  timestampUtcMs :: int
  dataLimit :: DailyDataLimitMetricsReportJson

text \<open>
  The value of an optional boolean field of a JavaScript object: absent (\<open>undefined\<close>)
  or a boolean. \<open>truthy\<close> is the conversion that \<open>!\<close>, \<open>||\<close> and \<open>if\<close> apply, and
  \<open>js_or a b\<close> is \<open>a || b\<close>, which yields its left operand when that is truthy and
  its right operand otherwise.
\<close>

datatype js_value = Undefined | Boolean bool

fun truthy :: "js_value \<Rightarrow> bool" where
  "truthy Undefined = False"
| "truthy (Boolean b) = b"

definition js_or :: "js_value \<Rightarrow> js_value \<Rightarrow> js_value" where
  "js_or a b = (if truthy a then a else b)"

text \<open>
  Modelled from the spec: the type \<open>ServerConfigJson\<close> is imported from
  \<open>./server_config\<close> and is not part of the source file. The persisted configuration
  is "a JSON-backed record exposing at least \<open>metricsEnabled: boolean\<close>,
  \<open>serverId: string\<close>, \<open>accessKeyDataLimit: optional<object>\<close>". A field of a JSON
  file may be missing, so \<open>metricsEnabled\<close> is a \<open>js_value\<close>; of the data limit only
  the presence is read, its content is kept as a number of bytes.
\<close>

record ServerConfigJson =
  metricsEnabled :: js_value
  serverId :: string
  accessKeyDataLimit :: "int option"

text \<open>
  The fields of \<open>class OutlineSharedMetricsPublisher\<close> that change or are read:
  the configuration object behind \<open>serverConfig.data()\<close> and the window cursor
  \<open>reportStartTimestampMs\<close>.
\<close>

record OutlineSharedMetricsPublisher =
  serverConfig :: ServerConfigJson
  reportStartTimestampMs :: int

subsection \<open>The sanction filter\<close>

text \<open>
  \<open>function hasSanctionedCountry(countries)\<close>: the loop returns \<open>true\<close> at the first
  country found in the set and \<open>false\<close> when the list is exhausted.
\<close>

fun hasSanctionedCountry :: "string list \<Rightarrow> bool" where
  "hasSanctionedCountry [] = False"
| "hasSanctionedCountry (country # rest) =
     (if country \<in> SANCTIONED_COUNTRIES then True else hasSanctionedCountry rest)"

text \<open>
  The injected \<open>toMetricsId\<close> may return \<open>undefined\<close> (\<open>None\<close>);
  \<open>this.toMetricsId(keyUsage.accessKeyId) || ''\<close> replaces every falsy result,
  that is \<open>undefined\<close> and the empty string, by the empty string.
\<close>

fun or_empty :: "string option \<Rightarrow> string" where
  "or_empty None = ''''"
| "or_empty (Some v) = (if v = '''' then '''' else v)"

text \<open>The object pushed onto \<open>userReports\<close> for one surviving entry.\<close>

definition userReport :: "(string \<Rightarrow> string option) \<Rightarrow> KeyUsage \<Rightarrow> HourlyUserMetricsReportJson" where
  "userReport toMetricsId keyUsage =
     \<lparr>userId = or_empty (toMetricsId (accessKeyId keyUsage)),
      bytesTransferred = inboundBytes keyUsage,
      HourlyUserMetricsReportJson.countries = KeyUsage.countries keyUsage\<rparr>"

text \<open>
  The \<open>for (const keyUsage of usageMetrics)\<close> loop of \<open>reportServerUsageMetrics\<close>, with
  the array \<open>userReports\<close> as accumulator: two \<open>continue\<close> guards, then a \<open>push\<close>.
\<close>

fun collectUserReports ::
  "(string \<Rightarrow> string option) \<Rightarrow> KeyUsage list \<Rightarrow> HourlyUserMetricsReportJson list
     \<Rightarrow> HourlyUserMetricsReportJson list" where
  "collectUserReports toMetricsId [] acc = acc"
| "collectUserReports toMetricsId (keyUsage # rest) acc =
     (if inboundBytes keyUsage = 0 then collectUserReports toMetricsId rest acc
      else if hasSanctionedCountry (KeyUsage.countries keyUsage)
        then collectUserReports toMetricsId rest acc
      else collectUserReports toMetricsId rest (acc @ [userReport toMetricsId keyUsage]))"

subsection \<open>The publisher\<close>

text \<open>
  What a tick does to the outside world is recorded as a list of effects, in program
  order: the calls on the usage source (\<open>getUsage\<close>, \<open>reset\<close>), the calls on the metrics
  collector with the report handed over, \<open>console.error\<close> with its message, and
  \<open>serverConfig.write()\<close>. \<open>BuildReport\<close> is not a call: it marks the point of
  \<open>reportServerUsageMetrics\<close> where the object \<open>report\<close> has been constructed, so that
  a report that is never delivered can still be spoken about.
\<close>

datatype effect =
    GetUsage
  | Reset
  | BuildReport HourlyServerMetricsReportJson
  | CollectServerUsageMetrics HourlyServerMetricsReportJson
  | CollectFeatureMetrics DailyFeatureMetricsReportJson
  | ConsoleError string
  | ConfigWrite

text \<open>
  The collaborators are injected interfaces. What they answer during one tick is given
  by the environment of that tick: the value of \<open>clock.now()\<close>, the outcome of the
  promise of \<open>usageMetrics.getUsage()\<close> and the outcome of the promise of the collector
  should it be called (\<open>Inl\<close> a rejection, \<open>Inr\<close> a fulfilment). An error is kept as
  the text that the template literal of the \<open>catch\<close> block prints for it.
  Each timer callback makes at most one call of each kind. A tick is run to completion
  with these answers; ticks do not interleave.
\<close>

record HourlyEnv =
  clockNow :: int
  getUsage :: "string + KeyUsage list"
  collectServerUsageMetrics :: "string + unit"

record DailyEnv =
  clockNow :: int
  collectFeatureMetrics :: "string + unit"

text \<open>The constructor sets the cursor to \<open>clock.now()\<close> and registers the two timers.\<close>

definition newPublisher :: "int \<Rightarrow> ServerConfigJson \<Rightarrow> OutlineSharedMetricsPublisher" where
  "newPublisher now config = \<lparr>serverConfig = config, reportStartTimestampMs = now\<rparr>"

text \<open>\<open>startSharing()\<close>, \<open>stopSharing()\<close> and \<open>isSharingEnabled()\<close>\<close>

definition startSharing ::
  "OutlineSharedMetricsPublisher \<Rightarrow> effect list \<times> OutlineSharedMetricsPublisher" where
  "startSharing p =
     ([ConfigWrite], p\<lparr>serverConfig := (serverConfig p)\<lparr>metricsEnabled := Boolean True\<rparr>\<rparr>)"

definition stopSharing ::
  "OutlineSharedMetricsPublisher \<Rightarrow> effect list \<times> OutlineSharedMetricsPublisher" where
  "stopSharing p =
     ([ConfigWrite], p\<lparr>serverConfig := (serverConfig p)\<lparr>metricsEnabled := Boolean False\<rparr>\<rparr>)"

definition isSharingEnabled :: "OutlineSharedMetricsPublisher \<Rightarrow> js_value" where
  "isSharingEnabled p = js_or (metricsEnabled (serverConfig p)) (Boolean False)"

text \<open>
  The first part of \<open>reportServerUsageMetrics(usageMetrics)\<close>, up to the object
  \<open>report\<close>: the end of the window is \<open>clock.now()\<close>, its start is the cursor.
\<close>

definition buildReport ::
  "(string \<Rightarrow> string option) \<Rightarrow> int \<Rightarrow> KeyUsage list \<Rightarrow> OutlineSharedMetricsPublisher
     \<Rightarrow> HourlyServerMetricsReportJson" where
  "buildReport toMetricsId reportEndTimestampMs usageMetrics p =
     \<lparr>HourlyServerMetricsReportJson.serverId = ServerConfigJson.serverId (serverConfig p),
      startUtcMs = reportStartTimestampMs p,
      endUtcMs = reportEndTimestampMs,
      userReports = collectUserReports toMetricsId usageMetrics []\<rparr>"

text \<open>
  The whole of \<open>reportServerUsageMetrics\<close>: the result is the outcome of the returned
  promise, the effects and the publisher afterwards. The cursor is assigned before the
  length test and before the delivery.
\<close>

definition reportServerUsageMetrics ::
  "(string \<Rightarrow> string option) \<Rightarrow> HourlyEnv \<Rightarrow> KeyUsage list \<Rightarrow> OutlineSharedMetricsPublisher
     \<Rightarrow> (string + unit) \<times> effect list \<times> OutlineSharedMetricsPublisher" where
  "reportServerUsageMetrics toMetricsId env usageMetrics p =
     (let reportEndTimestampMs = HourlyEnv.clockNow env;
          report = buildReport toMetricsId reportEndTimestampMs usageMetrics p;
          p' = p\<lparr>reportStartTimestampMs := reportEndTimestampMs\<rparr>
      in if length (userReports report) = 0 then (Inr (), [BuildReport report], p')
         else (collectServerUsageMetrics env,
               [BuildReport report, CollectServerUsageMetrics report], p'))"

text \<open>
  \<open>reportFeatureMetrics()\<close>; \<open>version\<close> is the constant imported from \<open>package.json\<close>,
  and \<open>!!this.serverConfig.data().accessKeyDataLimit\<close> is true when the field is
  present, since every object is truthy.
\<close>

definition reportFeatureMetrics ::
  "string \<Rightarrow> DailyEnv \<Rightarrow> OutlineSharedMetricsPublisher
     \<Rightarrow> (string + unit) \<times> effect list \<times> OutlineSharedMetricsPublisher" where
  "reportFeatureMetrics version env p =
     (let featureMetricsReport =
            \<lparr>DailyFeatureMetricsReportJson.serverId =
               ServerConfigJson.serverId (serverConfig p),
             serverVersion = version,
             timestampUtcMs = DailyEnv.clockNow env,
             dataLimit = \<lparr>enabled = (accessKeyDataLimit (serverConfig p) \<noteq> None)\<rparr>\<rparr>
      in (collectFeatureMetrics env, [CollectFeatureMetrics featureMetricsReport], p))"

text \<open>
  The callback of the first \<open>clock.setInterval\<close> (every \<open>MS_PER_HOUR\<close>). Inside the
  \<open>try\<close>, \<open>getUsage()\<close> is awaited first, then \<open>reportServerUsageMetrics\<close>, and
  \<open>usageMetrics.reset()\<close> is the statement after that \<open>await\<close>; a rejection of either
  promise goes to the \<open>catch\<close>, which only logs.
\<close>

definition hourlyTick ::
  "(string \<Rightarrow> string option) \<Rightarrow> HourlyEnv \<Rightarrow> OutlineSharedMetricsPublisher
     \<Rightarrow> effect list \<times> OutlineSharedMetricsPublisher" where
  "hourlyTick toMetricsId env p =
     (if \<not> truthy (isSharingEnabled p) then ([], p)
      else case getUsage env of
        Inl err \<Rightarrow>
          ([GetUsage, ConsoleError (''Failed to report server usage metrics: '' @ err)], p)
      | Inr usage \<Rightarrow>
          (case reportServerUsageMetrics toMetricsId env usage p of
             (Inl err, effects, p') \<Rightarrow>
               (GetUsage # effects @
                  [ConsoleError (''Failed to report server usage metrics: '' @ err)], p')
           | (Inr ok, effects, p') \<Rightarrow> (GetUsage # effects @ [Reset], p')))"

text \<open>The callback of the second \<open>clock.setInterval\<close> (every \<open>MS_PER_DAY\<close>).\<close>

definition dailyTick ::
  "string \<Rightarrow> DailyEnv \<Rightarrow> OutlineSharedMetricsPublisher
     \<Rightarrow> effect list \<times> OutlineSharedMetricsPublisher" where
  "dailyTick version env p =
     (if \<not> truthy (isSharingEnabled p) then ([], p)
      else case reportFeatureMetrics version env p of
        (Inl err, effects, p') \<Rightarrow>
          (effects @ [ConsoleError (''Failed to report feature metrics: '' @ err)], p')
      | (Inr ok, effects, p') \<Rightarrow> (effects, p'))"

text \<open>
  The life of a publisher is a sequence of events: calls of \<open>startSharing\<close> and
  \<open>stopSharing\<close> and firings of the two timers. \<open>run\<close> executes them in order and
  concatenates the effects.
\<close>

datatype event =
    StartSharing
  | StopSharing
  | HourlyTick HourlyEnv
  | DailyTick DailyEnv

fun step ::
  "(string \<Rightarrow> string option) \<Rightarrow> string \<Rightarrow> event \<Rightarrow> OutlineSharedMetricsPublisher
     \<Rightarrow> effect list \<times> OutlineSharedMetricsPublisher" where
  "step toMetricsId version StartSharing p = startSharing p"
| "step toMetricsId version StopSharing p = stopSharing p"
| "step toMetricsId version (HourlyTick env) p = hourlyTick toMetricsId env p"
| "step toMetricsId version (DailyTick env) p = dailyTick version env p"

fun run ::
  "(string \<Rightarrow> string option) \<Rightarrow> string \<Rightarrow> event list \<Rightarrow> OutlineSharedMetricsPublisher
     \<Rightarrow> effect list \<times> OutlineSharedMetricsPublisher" where
  "run toMetricsId version [] p = ([], p)"
| "run toMetricsId version (e # es) p =
     (case step toMetricsId version e p of
        (effects, p') \<Rightarrow>
          (case run toMetricsId version es p' of
             (effects', p'') \<Rightarrow> (effects @ effects', p'')))"

subsection \<open>The transport\<close>

text \<open>
  Template literals and \<open>JSON.stringify\<close> print an integer in decimal notation as
  long as its absolute value is below \<open>10^21\<close>; from there on they use an exponent,
  which \<open>numberToString\<close> does not. The status codes, timestamps in milliseconds and
  byte counts that are printed below are far smaller.
\<close>

fun decimalDigits :: "nat \<Rightarrow> string" where
  "decimalDigits n =
     (if n < 10 then [''0123456789'' ! n]
      else decimalDigits (n div 10) @ [''0123456789'' ! (n mod 10)])"

declare decimalDigits.simps [simp del]

definition numberToString :: "int \<Rightarrow> string" where
  "numberToString i = (if i < 0 then ''-'' @ decimalDigits (nat (- i)) else decimalDigits (nat i))"

text \<open>
  \<open>JSON.stringify\<close> on a string: the text between double quotes, with the double quote
  and the backslash escaped by a backslash, the control characters below \<open>0x20\<close>
  written as backslash and \<open>b\<close>, \<open>t\<close>, \<open>n\<close>, \<open>f\<close>, \<open>r\<close> or \<open>u00XX\<close>, and every
  other character, the non-ASCII ones included, copied as it is.
\<close>

definition quoteJSONChar :: "char \<Rightarrow> string" where
  "quoteJSONChar c =
     (if c = CHR 0x08 then [CHR 0x5C, CHR ''b'']
      else if c = CHR 0x09 then [CHR 0x5C, CHR ''t'']
      else if c = CHR 0x0A then [CHR 0x5C, CHR ''n'']
      else if c = CHR 0x0C then [CHR 0x5C, CHR ''f'']
      else if c = CHR 0x0D then [CHR 0x5C, CHR ''r'']
      else if c = CHR 0x22 then [CHR 0x5C, CHR 0x22]
      else if c = CHR 0x5C then [CHR 0x5C, CHR 0x5C]
      else if (of_char c :: nat) < 0x20
        then [CHR 0x5C, CHR ''u'', CHR ''0'', CHR ''0'',
              ''0123456789abcdef'' ! (of_char c div 16), ''0123456789abcdef'' ! (of_char c mod 16)]
      else [c])"

definition quoteJSONString :: "string \<Rightarrow> string" where
  "quoteJSONString v = [CHR 0x22] @ concat (map quoteJSONChar v) @ [CHR 0x22]"

text \<open>The elements of a JSON array, separated by commas.\<close>

fun commaSeparated :: "string list \<Rightarrow> string" where
  "commaSeparated [] = []"
| "commaSeparated [x] = x"
| "commaSeparated (x # y # rest) = x @ '','' @ commaSeparated (y # rest)"

text \<open>
  \<open>JSON.stringify\<close> on the report objects: the own properties in the order of their
  creation, without white space.
\<close>

definition stringifyUserReport :: "HourlyUserMetricsReportJson \<Rightarrow> string" where
  "stringifyUserReport r =
     ''{'' @ quoteJSONString ''userId'' @ '':'' @ quoteJSONString (userId r) @ '','' @
     quoteJSONString ''bytesTransferred'' @ '':'' @ numberToString (bytesTransferred r) @ '','' @
     quoteJSONString ''countries'' @ '':['' @
       commaSeparated (map quoteJSONString (HourlyUserMetricsReportJson.countries r)) @ '']}''"

definition stringifyHourlyReport :: "HourlyServerMetricsReportJson \<Rightarrow> string" where
  "stringifyHourlyReport r =
     ''{'' @ quoteJSONString ''serverId'' @ '':'' @
       quoteJSONString (HourlyServerMetricsReportJson.serverId r) @ '','' @
     quoteJSONString ''startUtcMs'' @ '':'' @ numberToString (startUtcMs r) @ '','' @
     quoteJSONString ''endUtcMs'' @ '':'' @ numberToString (endUtcMs r) @ '','' @
     quoteJSONString ''userReports'' @ '':['' @
       commaSeparated (map stringifyUserReport (userReports r)) @ '']}''"

definition stringifyFeatureReport :: "DailyFeatureMetricsReportJson \<Rightarrow> string" where
  "stringifyFeatureReport r =
     ''{'' @ quoteJSONString ''serverId'' @ '':'' @
       quoteJSONString (DailyFeatureMetricsReportJson.serverId r) @ '','' @
     quoteJSONString ''serverVersion'' @ '':'' @ quoteJSONString (serverVersion r) @ '','' @
     quoteJSONString ''timestampUtcMs'' @ '':'' @ numberToString (timestampUtcMs r) @ '','' @
     quoteJSONString ''dataLimit'' @ '':{'' @ quoteJSONString ''enabled'' @ '':'' @
       (if enabled (dataLimit r) then ''true'' else ''false'') @ ''}}''"

text \<open>
  \<open>req.write(reportJson)\<close> sends a string in UTF-8: a code unit below \<open>0x80\<close> is one
  byte, a code unit from \<open>0x80\<close> to \<open>0xFF\<close> is two bytes.
\<close>

definition utf8Char :: "char \<Rightarrow> nat list" where
  "utf8Char c =
     (if (of_char c :: nat) < 0x80 then [of_char c]
      else [0xC0 + of_char c div 0x40, 0x80 + of_char c mod 0x40])"

definition utf8Bytes :: "string \<Rightarrow> nat list" where
  "utf8Bytes v = concat (map utf8Char v)"

text \<open>
  \<open>new URL(this.serviceUrl)\<close>: the parsed URL, of which the scheme and the host are
  kept. The getter \<open>protocol\<close> returns the scheme followed by a colon, the getter
  \<open>hostname\<close> returns the host. A service URL that does not parse makes the constructor
  throw before any request is made; \<open>postMetrics\<close> below starts from a URL that parsed.
\<close>

record URL =
  scheme :: string
  host :: string

definition protocol :: "URL \<Rightarrow> string" where
  "protocol url = scheme url @ '':''"

definition hostname :: "URL \<Rightarrow> string" where
  "hostname url = host url"

text \<open>The two modules imported from \<open>follow-redirects\<close>.\<close>

datatype request_module = http | https

text \<open>The object \<open>options\<close> of \<open>postMetrics\<close>, with the fields \<open>hostname\<close>
  (here \<open>optHostname\<close>, the name \<open>hostname\<close> being the getter of the URL), \<open>path\<close>,
  \<open>headers\<close> and \<open>method\<close> (here \<open>requestMethod\<close>).\<close>

record RequestHeaders =
  contentType :: string
  contentLength :: nat

record RequestOptions =
  optHostname :: string
  path :: string
  headers :: RequestHeaders
  requestMethod :: string

text \<open>
  What \<open>postMetrics\<close> does, in program order: \<open>logging.info\<close> with its line,
  \<open>requestModule.request(options, callback)\<close>, which sends the request,
  \<open>req.write\<close> with the bytes that go on the wire, \<open>req.end()\<close>. \<open>FollowRedirect\<close> is
  not a statement of \<open>postMetrics\<close>: it is a further request that the library sends
  to the location of a redirect.
\<close>

datatype transport_effect =
    LoggingInfo string
  | Request request_module RequestOptions
  | Write "nat list"
  | End
  | FollowRedirect string

text \<open>
  The modules \<open>http\<close> and \<open>https\<close> are those of the library \<open>follow-redirects\<close>, not
  the ones of the platform. The request object that \<open>requestModule.request\<close> returns
  sends the request and then treats what comes back for it:
  \<^item> a response with a status code in \<open>[300, 400)\<close> and a non-empty \<open>Location\<close> header is
    not handed to the callback: the library sends a further request to that location,
    unless more than \<open>maxRedirects\<close> (21, the default, no option being set) redirects
    have been followed, in which case it emits an \<open>error\<close> event;
  \<^item> any other response is handed to the callback, whose code reads \<open>statusCode\<close> only;
  \<^item> an error of the connection is emitted as an \<open>error\<close> event.
  How the library re-sends a redirected POST (method and body depend on the status
  code) is not modelled, only that one more request is sent. The text of the error
  for too many redirects is that of the versions 1.x of the library up to 1.9.
\<close>

datatype promise = Pending | Fulfilled | Rejected string

text \<open>
  What comes back for the request that is under way: a response without \<open>Location\<close>
  header, a response with one, or an error.
\<close>

datatype request_event =
    Response nat
  | ErrorEvent string
  | ResponseWithLocation nat string

definition maxRedirects :: nat where
  "maxRedirects = 21"

definition tooManyRedirects :: string where
  "tooManyRedirects = ''Error: Max redirects exceeded.''"

fun isRedirect :: "request_event \<Rightarrow> bool" where
  "isRedirect (ResponseWithLocation statusCode location) =
     (300 \<le> statusCode \<and> statusCode < 400 \<and> location \<noteq> [])"
| "isRedirect ev = False"

text \<open>
  The library's part: with \<open>redirectCount\<close> redirects followed so far it follows the
  redirects at the head of what comes back, one further request each, and hands
  everything from the first other event on to the code of \<open>postMetrics\<close>. The result
  is the requests sent for redirects and the events emitted to that code.
\<close>

fun followRedirects ::
  "nat \<Rightarrow> request_event list \<Rightarrow> transport_effect list \<times> request_event list" where
  "followRedirects redirectCount [] = ([], [])"
| "followRedirects redirectCount (ResponseWithLocation statusCode location # rest) =
     (if isRedirect (ResponseWithLocation statusCode location) then
        (if Suc redirectCount > maxRedirects then ([], ErrorEvent tooManyRedirects # rest)
         else case followRedirects (Suc redirectCount) rest of
           (followed, emitted) \<Rightarrow> (FollowRedirect location # followed, emitted))
      else ([], ResponseWithLocation statusCode location # rest))"
| "followRedirects redirectCount (ev # rest) = ([], ev # rest)"

text \<open>
  The promise returned by \<open>postMetrics\<close> is settled by what the request object emits
  to the code: the callback of \<open>request\<close> resolves or rejects by the status code of the
  response it is given, the \<open>error\<close> handler rejects with the error. A promise is
  settled once: \<open>resolve\<close> and \<open>reject\<close> on a settled promise do nothing.
\<close>

fun resolve :: "promise \<Rightarrow> promise" where
  "resolve Pending = Fulfilled"
| "resolve pr = pr"

fun reject :: "string \<Rightarrow> promise \<Rightarrow> promise" where
  "reject e Pending = Rejected e"
| "reject e pr = pr"

definition onResponse :: "nat \<Rightarrow> promise \<Rightarrow> promise" where
  "onResponse statusCode pr =
     (if statusCode \<ge> 200 \<and> statusCode < 300 then resolve pr
      else reject (''metrics server request failed with status code '' @
                     decimalDigits statusCode) pr)"

fun onRequestEvent :: "request_event \<Rightarrow> promise \<Rightarrow> promise" where
  "onRequestEvent (Response statusCode) pr = onResponse statusCode pr"
| "onRequestEvent (ResponseWithLocation statusCode location) pr = onResponse statusCode pr"
| "onRequestEvent (ErrorEvent e) pr = reject e pr"

fun settle :: "request_event list \<Rightarrow> promise \<Rightarrow> promise" where
  "settle [] pr = pr"
| "settle (ev # evs) pr = settle evs (onRequestEvent ev pr)"

text \<open>
  \<open>postMetrics(urlPath, reportJson)\<close> of \<open>class RestMetricsCollectorClient\<close>, for the
  service URL \<open>serviceUrl\<close> parsed as \<open>url\<close> and for \<open>events\<close>, what comes back for the
  requests in the order of arrival: the effects, those of the code followed by the
  requests that the library sends for redirects, and the final state of the returned
  promise.
\<close>

definition postMetrics ::
  "string \<Rightarrow> URL \<Rightarrow> string \<Rightarrow> string \<Rightarrow> request_event list
     \<Rightarrow> transport_effect list \<times> promise" where
  "postMetrics serviceUrl url urlPath reportJson events =
     (let requestModule = (if protocol url = ''http'' then http else https);
          options = \<lparr>optHostname = hostname url,
                     path = urlPath,
                     headers = \<lparr>contentType = ''application/json'',
                                contentLength = length reportJson\<rparr>,
                     requestMethod = ''POST''\<rparr>
      in case followRedirects 0 events of
        (followed, emitted) \<Rightarrow>
          ([LoggingInfo (''Posting metrics to '' @ serviceUrl @ urlPath @ '': '' @ reportJson),
            Request requestModule options,
            Write (utf8Bytes reportJson),
            End] @ followed,
           settle emitted Pending))"

definition restCollectServerUsageMetrics ::
  "string \<Rightarrow> URL \<Rightarrow> HourlyServerMetricsReportJson \<Rightarrow> request_event list
     \<Rightarrow> transport_effect list \<times> promise" where
  "restCollectServerUsageMetrics serviceUrl url reportJson events =
     postMetrics serviceUrl url ''/connections'' (stringifyHourlyReport reportJson) events"

definition restCollectFeatureMetrics ::
  "string \<Rightarrow> URL \<Rightarrow> DailyFeatureMetricsReportJson \<Rightarrow> request_event list
     \<Rightarrow> transport_effect list \<times> promise" where
  "restCollectFeatureMetrics serviceUrl url reportJson events =
     postMetrics serviceUrl url ''/features'' (stringifyFeatureReport reportJson) events"

subsection \<open>Observations on effect lists and sample inputs\<close>

text \<open>The reports constructed during a run, in the order of their construction.\<close>

fun builtReports :: "effect list \<Rightarrow> HourlyServerMetricsReportJson list" where
  "builtReports [] = []"
| "builtReports (BuildReport r # es) = r # builtReports es"
| "builtReports (e # es) = builtReports es"

text \<open>
  The modules on which \<open>request\<close> was called, the options of these calls and the
  bytes written, in program order.
\<close>

fun modulesUsed :: "transport_effect list \<Rightarrow> request_module list" where
  "modulesUsed [] = []"
| "modulesUsed (Request m opts # es) = m # modulesUsed es"
| "modulesUsed (e # es) = modulesUsed es"

fun requestOptions :: "transport_effect list \<Rightarrow> RequestOptions list" where
  "requestOptions [] = []"
| "requestOptions (Request m opts # es) = opts # requestOptions es"
| "requestOptions (e # es) = requestOptions es"

fun writtenBytes :: "transport_effect list \<Rightarrow> nat list" where
  "writtenBytes [] = []"
| "writtenBytes (Write bs # es) = bs @ writtenBytes es"
| "writtenBytes (e # es) = writtenBytes es"

text \<open>
  The number of requests sent: the call of \<open>request\<close> and the requests of the library
  for redirects. The location that a redirect names.
\<close>

fun requestsSent :: "transport_effect list \<Rightarrow> nat" where
  "requestsSent [] = 0"
| "requestsSent (Request m opts # es) = Suc (requestsSent es)"
| "requestsSent (FollowRedirect location # es) = Suc (requestsSent es)"
| "requestsSent (e # es) = requestsSent es"

fun locationOf :: "request_event \<Rightarrow> string" where
  "locationOf (ResponseWithLocation statusCode location) = location"
| "locationOf ev = []"

text \<open>
  Sample inputs: a publisher that shares metrics with its cursor at 0, one that was
  loaded from a configuration without the field \<open>metricsEnabled\<close>, and usage entries
  for one allowed country, one sanctioned country, both, and no traffic at all.
\<close>

abbreviation sharingPublisher :: OutlineSharedMetricsPublisher where
  "sharingPublisher \<equiv>
     \<lparr>serverConfig = \<lparr>metricsEnabled = Boolean True, ServerConfigJson.serverId = ''srv'',
                       accessKeyDataLimit = None\<rparr>,
      reportStartTimestampMs = 0\<rparr>"

abbreviation freshPublisher :: OutlineSharedMetricsPublisher where
  "freshPublisher \<equiv>
     \<lparr>serverConfig = \<lparr>metricsEnabled = Undefined, ServerConfigJson.serverId = ''srv'',
                       accessKeyDataLimit = None\<rparr>,
      reportStartTimestampMs = 0\<rparr>"

abbreviation usageUS :: KeyUsage where
  "usageUS \<equiv> \<lparr>accessKeyId = ''a'', KeyUsage.countries = [''US''], inboundBytes = 1000\<rparr>"

abbreviation usageKP :: KeyUsage where
  "usageKP \<equiv> \<lparr>accessKeyId = ''b'', KeyUsage.countries = [''KP''], inboundBytes = 500\<rparr>"

abbreviation usageMixed :: KeyUsage where
  "usageMixed \<equiv>
     \<lparr>accessKeyId = ''m'', KeyUsage.countries = [''US'', ''KP''], inboundBytes = 700\<rparr>"

abbreviation usageIdle :: KeyUsage where
  "usageIdle \<equiv> \<lparr>accessKeyId = ''c'', KeyUsage.countries = [], inboundBytes = 0\<rparr>"

text \<open>An hourly tick at time \<open>now\<close> whose fetch returns \<open>usage\<close> and whose delivery,
  if attempted, ends as \<open>outcome\<close>; a daily tick whose delivery succeeds.\<close>

abbreviation hourlyAt :: "int \<Rightarrow> KeyUsage list \<Rightarrow> string + unit \<Rightarrow> HourlyEnv" where
  "hourlyAt now usage outcome \<equiv>
     \<lparr>HourlyEnv.clockNow = now, getUsage = Inr usage, collectServerUsageMetrics = outcome\<rparr>"

abbreviation dailyAt :: "int \<Rightarrow> DailyEnv" where
  "dailyAt now \<equiv> \<lparr>DailyEnv.clockNow = now, collectFeatureMetrics = Inr ()\<rparr>"

abbreviation status503 :: "string + unit" where
  "status503 \<equiv> Inl ''Error: metrics server request failed with status code 503''"

section \<open>Properties of the publisher\<close>

subsection \<open>The filter as a whole\<close>

lemma hasSanctionedCountry_iff:
  "hasSanctionedCountry cs \<longleftrightarrow> (\<exists>c \<in> set cs. c \<in> SANCTIONED_COUNTRIES)"
  by (induction cs) auto

lemma collectUserReports_filter:
  "collectUserReports f us acc =
     acc @ map (userReport f)
       (filter (\<lambda>k. inboundBytes k \<noteq> 0 \<and> \<not> hasSanctionedCountry (KeyUsage.countries k)) us)"
  by (induction us arbitrary: acc) auto

lemma userReports_buildReport:
  "userReports (buildReport f now us p) =
     map (userReport f)
       (filter (\<lambda>k. inboundBytes k \<noteq> 0 \<and> \<not> hasSanctionedCountry (KeyUsage.countries k)) us)"
  by (simp add: buildReport_def collectUserReports_filter)

lemma userReport_fields:
  "bytesTransferred (userReport f k) = inboundBytes k"
  "HourlyUserMetricsReportJson.countries (userReport f k) = KeyUsage.countries k"
  by (simp_all add: userReport_def)

lemma buildReport_window:
  "startUtcMs (buildReport f now usage p) = reportStartTimestampMs p"
  "endUtcMs (buildReport f now usage p) = now"
  by (simp_all add: buildReport_def)

lemmas tick_defs =
  hourlyTick_def dailyTick_def reportServerUsageMetrics_def reportFeatureMetrics_def
  buildReport_def userReport_def isSharingEnabled_def js_or_def startSharing_def
  stopSharing_def SANCTIONED_COUNTRIES_def Let_def

text \<open>
  \<^bold>\<open>C1\<close>, as stated by the specification, fails: an entry is claimed to be suppressed
  only when every country of its list is sanctioned, and to appear as soon as one
  country is not. The entry \<open>usageMixed\<close> has 700 bytes and the countries \<open>US\<close> and
  \<open>KP\<close>; \<open>US\<close> is not sanctioned, yet the report built from it has no user report.
\<close>

theorem mixed_countries_counterexample:
  "0 < inboundBytes usageMixed \<and> ''US'' \<in> set (KeyUsage.countries usageMixed) \<and>
   ''US'' \<notin> SANCTIONED_COUNTRIES \<and>
   userReports (buildReport Some 3600000 [usageMixed] sharingPublisher) = []"
  by (simp add: tick_defs)

text \<open>
  \<^bold>\<open>C1\<close>, amended: for every entry of the usage snapshot with positive bytes, the
  hourly report suppresses the entry exactly when at least one country of its list is
  in the sanctioned set; an entry none of whose countries is sanctioned (the empty
  list included) appears among the \<open>userReports\<close>.
\<close>

theorem sanctioned_entry_suppression:
  assumes "k \<in> set usage" and "0 < inboundBytes k"
  shows "userReport f k \<in> set (userReports (buildReport f now usage p)) \<longleftrightarrow>
         \<not> (\<exists>c \<in> set (KeyUsage.countries k). c \<in> SANCTIONED_COUNTRIES)"
proof
  assume "userReport f k \<in> set (userReports (buildReport f now usage p))"
  then obtain k' where k': "\<not> hasSanctionedCountry (KeyUsage.countries k')"
    and eq: "userReport f k = userReport f k'"
    by (auto simp: userReports_buildReport)
  from eq have "KeyUsage.countries k = KeyUsage.countries k'"
    by (metis userReport_fields(2))
  with k' show "\<not> (\<exists>c \<in> set (KeyUsage.countries k). c \<in> SANCTIONED_COUNTRIES)"
    by (simp add: hasSanctionedCountry_iff)
next
  assume "\<not> (\<exists>c \<in> set (KeyUsage.countries k). c \<in> SANCTIONED_COUNTRIES)"
  with assms show "userReport f k \<in> set (userReports (buildReport f now usage p))"
    by (auto simp: userReports_buildReport hasSanctionedCountry_iff)
qed

text \<open>Witness for \<^bold>\<open>C1\<close>: the first end-to-end scenario, in which the entry for \<open>US\<close>
  is reported and the entry for \<open>KP\<close> is not.\<close>

theorem sanctioned_entry_suppression_witness:
  "usageUS \<in> set [usageUS, usageKP] \<and> 0 < inboundBytes usageUS \<and>
   userReport Some usageUS
     \<in> set (userReports (buildReport Some 3600000 [usageUS, usageKP] sharingPublisher))"
proof -
  have m: "usageUS \<in> set [usageUS, usageKP]" by simp
  have b: "0 < inboundBytes usageUS" by simp
  have c: "\<not> (\<exists>c \<in> set (KeyUsage.countries usageUS). c \<in> SANCTIONED_COUNTRIES)"
    by (simp add: SANCTIONED_COUNTRIES_def)
  from sanctioned_entry_suppression [OF m b, of Some 3600000 sharingPublisher] c m b
  show ?thesis by blast
qed

text \<open>
  \<^bold>\<open>C6\<close>: for every usage snapshot, no entry whose \<open>inboundBytes\<close> is 0 appears among
  the \<open>userReports\<close> of the hourly report, and no user report carries 0 bytes.
\<close>

theorem zero_bytes_never_reported:
  "(\<forall>k \<in> set usage. inboundBytes k = 0 \<longrightarrow>
      userReport f k \<notin> set (userReports (buildReport f now usage p))) \<and>
   (\<forall>r \<in> set (userReports (buildReport f now usage p)). bytesTransferred r \<noteq> 0)"
proof -
  have rows: "\<forall>r \<in> set (userReports (buildReport f now usage p)). bytesTransferred r \<noteq> 0"
    by (auto simp: userReports_buildReport userReport_fields)
  then have "\<forall>k \<in> set usage. inboundBytes k = 0 \<longrightarrow>
      userReport f k \<notin> set (userReports (buildReport f now usage p))"
    by (metis userReport_fields(1))
  with rows show ?thesis by blast
qed

text \<open>Witness for \<^bold>\<open>C6\<close>: the idle entry next to a reported one.\<close>

theorem zero_bytes_never_reported_witness:
  "usageIdle \<in> set [usageIdle, usageUS] \<and> inboundBytes usageIdle = 0 \<and>
   userReport Some usageIdle
     \<notin> set (userReports (buildReport Some 3600000 [usageIdle, usageUS] sharingPublisher)) \<and>
   userReports (buildReport Some 3600000 [usageIdle, usageUS] sharingPublisher) \<noteq> []"
proof -
  have m: "usageIdle \<in> set [usageIdle, usageUS]" by simp
  have z: "inboundBytes usageIdle = 0" by simp
  have n: "userReports (buildReport Some 3600000 [usageIdle, usageUS] sharingPublisher) \<noteq> []"
    by (simp add: tick_defs)
  from zero_bytes_never_reported [of "[usageIdle, usageUS]" Some 3600000 sharingPublisher] m z
  have "userReport Some usageIdle
     \<notin> set (userReports (buildReport Some 3600000 [usageIdle, usageUS] sharingPublisher))"
    by blast
  with m z n show ?thesis by blast
qed

subsection \<open>The hourly tick\<close>

lemma hourlyTick_fetched:
  assumes "truthy (isSharingEnabled p)" and "getUsage env = Inr usage"
  shows "hourlyTick f env p =
     (if userReports (buildReport f (HourlyEnv.clockNow env) usage p) = []
      then ([GetUsage, BuildReport (buildReport f (HourlyEnv.clockNow env) usage p), Reset],
            p\<lparr>reportStartTimestampMs := HourlyEnv.clockNow env\<rparr>)
      else case collectServerUsageMetrics env of
        Inl err \<Rightarrow>
          ([GetUsage, BuildReport (buildReport f (HourlyEnv.clockNow env) usage p),
            CollectServerUsageMetrics (buildReport f (HourlyEnv.clockNow env) usage p),
            ConsoleError (''Failed to report server usage metrics: '' @ err)],
           p\<lparr>reportStartTimestampMs := HourlyEnv.clockNow env\<rparr>)
      | Inr u \<Rightarrow>
          ([GetUsage, BuildReport (buildReport f (HourlyEnv.clockNow env) usage p),
            CollectServerUsageMetrics (buildReport f (HourlyEnv.clockNow env) usage p), Reset],
           p\<lparr>reportStartTimestampMs := HourlyEnv.clockNow env\<rparr>))"
  using assms
  by (auto simp: hourlyTick_def reportServerUsageMetrics_def Let_def split: sum.splits)

lemma all_sanctioned_has_sanctioned:
  "cs \<noteq> [] \<Longrightarrow> set cs \<subseteq> SANCTIONED_COUNTRIES \<Longrightarrow> hasSanctionedCountry cs"
  by (cases cs) auto

lemma sharingPublisher_enabled: "truthy (isSharingEnabled sharingPublisher)"
  by (simp add: isSharingEnabled_def js_or_def)

text \<open>
  \<^bold>\<open>C2\<close>, as stated by the specification, fails: \<open>reset()\<close> is claimed to be invoked on
  every hourly tick whose fetch succeeds, also when the delivery fails. In the tick
  below the fetch returns one entry that survives the filter and the collector rejects
  with status 503: the report is handed to the collector, the error is logged, and
  \<open>reset()\<close> is not called.
\<close>

theorem reset_skipped_counterexample:
  "getUsage (hourlyAt 3600000 [usageUS] status503) = Inr [usageUS] \<and>
   Reset \<notin> set (fst (hourlyTick Some (hourlyAt 3600000 [usageUS] status503) sharingPublisher))"
  by (simp add: tick_defs)

text \<open>
  \<^bold>\<open>C2\<close>, amended: on every hourly tick where sharing is enabled and the usage fetch
  succeeds, \<open>reset()\<close> is invoked exactly when \<open>reportServerUsageMetrics\<close> fulfils,
  that is when no entry survives the filter (nothing is delivered) or when the delivery
  to the metrics collector succeeds; when \<open>collectServerUsageMetrics\<close> rejects,
  \<open>reset()\<close> is not invoked in that tick.
\<close>

theorem reset_after_fetch:
  assumes "truthy (isSharingEnabled p)" and "getUsage env = Inr usage"
  shows "Reset \<in> set (fst (hourlyTick f env p)) \<longleftrightarrow>
     (userReports (buildReport f (HourlyEnv.clockNow env) usage p) = [] \<or>
      collectServerUsageMetrics env = Inr ())"
  by (auto simp: hourlyTick_fetched [OF assms] split: sum.splits)

text \<open>Witness for \<^bold>\<open>C2\<close>: the same tick with a delivery that succeeds.\<close>

theorem reset_after_fetch_witness:
  "truthy (isSharingEnabled sharingPublisher) \<and>
   getUsage (hourlyAt 3600000 [usageUS] (Inr ())) = Inr [usageUS] \<and>
   Reset \<in> set (fst (hourlyTick Some (hourlyAt 3600000 [usageUS] (Inr ())) sharingPublisher))"
proof -
  have g: "getUsage (hourlyAt 3600000 [usageUS] (Inr ())) = Inr [usageUS]" by simp
  have d: "collectServerUsageMetrics (hourlyAt 3600000 [usageUS] (Inr ())) = Inr ()" by simp
  from reset_after_fetch [OF sharingPublisher_enabled g, of Some] d
  have "Reset \<in> set (fst (hourlyTick Some (hourlyAt 3600000 [usageUS] (Inr ())) sharingPublisher))"
    by blast
  with sharingPublisher_enabled g show ?thesis by blast
qed

text \<open>
  \<^bold>\<open>C7\<close>: for every usage snapshot in which no entry survives the filter, the hourly
  cycle makes no delivery call to the metrics collector, while the window cursor still
  advances to the time of the tick. The snapshots in which every entry has zero bytes or
  a non-empty country list made of sanctioned countries only are among them.
\<close>

theorem empty_report_not_delivered:
  assumes "truthy (isSharingEnabled p)" and "getUsage env = Inr usage"
    and "userReports (buildReport f (HourlyEnv.clockNow env) usage p) = [] \<or>
         (\<forall>k \<in> set usage. inboundBytes k = 0 \<or>
            (KeyUsage.countries k \<noteq> [] \<and> set (KeyUsage.countries k) \<subseteq> SANCTIONED_COUNTRIES))"
  shows "(\<forall>r. CollectServerUsageMetrics r \<notin> set (fst (hourlyTick f env p))) \<and>
         reportStartTimestampMs (snd (hourlyTick f env p)) = HourlyEnv.clockNow env"
proof -
  have "userReports (buildReport f (HourlyEnv.clockNow env) usage p) = []"
    using assms(3)
  proof
    assume "\<forall>k \<in> set usage. inboundBytes k = 0 \<or>
            (KeyUsage.countries k \<noteq> [] \<and> set (KeyUsage.countries k) \<subseteq> SANCTIONED_COUNTRIES)"
    then have "\<forall>k \<in> set usage. inboundBytes k = 0 \<or> hasSanctionedCountry (KeyUsage.countries k)"
      using all_sanctioned_has_sanctioned by blast
    then show ?thesis
      by (auto simp: userReports_buildReport filter_empty_conv)
  qed simp
  then show ?thesis by (simp add: hourlyTick_fetched [OF assms(1,2)])
qed

text \<open>Witness for \<^bold>\<open>C7\<close>: the second end-to-end scenario, with one idle entry and
  one entry from a sanctioned country.\<close>

theorem empty_report_not_delivered_witness:
  "truthy (isSharingEnabled sharingPublisher) \<and>
   getUsage (hourlyAt 3600000 [usageIdle, usageKP] (Inr ())) = Inr [usageIdle, usageKP] \<and>
   (\<forall>r. CollectServerUsageMetrics r
      \<notin> set (fst (hourlyTick Some (hourlyAt 3600000 [usageIdle, usageKP] (Inr ()))
                   sharingPublisher))) \<and>
   reportStartTimestampMs
     (snd (hourlyTick Some (hourlyAt 3600000 [usageIdle, usageKP] (Inr ())) sharingPublisher))
     = 3600000"
proof -
  have g: "getUsage (hourlyAt 3600000 [usageIdle, usageKP] (Inr ())) = Inr [usageIdle, usageKP]"
    by simp
  have e: "userReports (buildReport Some
             (HourlyEnv.clockNow (hourlyAt 3600000 [usageIdle, usageKP] (Inr ())))
             [usageIdle, usageKP] sharingPublisher) = [] \<or>
         (\<forall>k \<in> set [usageIdle, usageKP]. inboundBytes k = 0 \<or>
            (KeyUsage.countries k \<noteq> [] \<and> set (KeyUsage.countries k) \<subseteq> SANCTIONED_COUNTRIES))"
    by (simp add: SANCTIONED_COUNTRIES_def)
  from empty_report_not_delivered [OF sharingPublisher_enabled g e] sharingPublisher_enabled g
  show ?thesis by simp
qed

subsection \<open>Runs of the publisher\<close>

lemma builtReports_append: "builtReports (xs @ ys) = builtReports xs @ builtReports ys"
  by (induction xs rule: builtReports.induct) auto

lemma reportServerUsageMetrics_built:
  "reportServerUsageMetrics f env usage p = (res, effs, p') \<Longrightarrow>
     builtReports effs = [buildReport f (HourlyEnv.clockNow env) usage p] \<and>
     reportStartTimestampMs p' = HourlyEnv.clockNow env \<and> serverConfig p' = serverConfig p"
  by (auto simp: reportServerUsageMetrics_def Let_def split: if_splits)

lemma step_built:
  assumes "step f v e p = (effs, p')"
  shows "(builtReports effs = [] \<and> reportStartTimestampMs p' = reportStartTimestampMs p) \<or>
         (\<exists>r. builtReports effs = [r] \<and> startUtcMs r = reportStartTimestampMs p \<and>
              endUtcMs r = reportStartTimestampMs p')"
proof (cases e)
  case StartSharing
  with assms show ?thesis by (auto simp: startSharing_def)
next
  case StopSharing
  with assms show ?thesis by (auto simp: stopSharing_def)
next
  case (HourlyTick env)
  with assms show ?thesis
    by (auto simp: hourlyTick_def builtReports_append buildReport_window
        split: if_splits sum.splits prod.splits
        dest!: reportServerUsageMetrics_built)
next
  case (DailyTick env)
  with assms show ?thesis
    by (auto simp: dailyTick_def reportFeatureMetrics_def Let_def builtReports_append
        split: if_splits sum.splits prod.splits)
qed

lemma run_chain:
  "run f v evs p = (effs, p') \<Longrightarrow>
     successively (\<lambda>a b. startUtcMs b = endUtcMs a) (builtReports effs) \<and>
     (builtReports effs = [] \<longrightarrow> reportStartTimestampMs p' = reportStartTimestampMs p) \<and>
     (builtReports effs \<noteq> [] \<longrightarrow>
        startUtcMs (hd (builtReports effs)) = reportStartTimestampMs p \<and>
        endUtcMs (last (builtReports effs)) = reportStartTimestampMs p')"
proof (induction evs arbitrary: p effs p')
  case Nil
  then show ?case by simp
next
  case (Cons e es)
  obtain effs1 p1 where s: "step f v e p = (effs1, p1)" by (cases "step f v e p")
  obtain effs2 p2 where r: "run f v es p1 = (effs2, p2)" by (cases "run f v es p1")
  from Cons.prems s r have eq: "effs = effs1 @ effs2" "p' = p2" by auto
  note ih = Cons.IH [OF r]
  from step_built [OF s] show ?case
  proof
    assume "builtReports effs1 = [] \<and> reportStartTimestampMs p1 = reportStartTimestampMs p"
    with ih eq show ?thesis by (simp add: builtReports_append)
  next
    assume "\<exists>r. builtReports effs1 = [r] \<and> startUtcMs r = reportStartTimestampMs p \<and>
              endUtcMs r = reportStartTimestampMs p1"
    then obtain r where "builtReports effs1 = [r]" "startUtcMs r = reportStartTimestampMs p"
      "endUtcMs r = reportStartTimestampMs p1" by blast
    with ih eq show ?thesis
      by (cases "builtReports effs2") (auto simp: builtReports_append successively_Cons)
  qed
qed

lemma successively_nth:
  "successively P xs \<Longrightarrow> Suc i < length xs \<Longrightarrow> P (xs ! i) (xs ! Suc i)"
proof (induction xs arbitrary: i)
  case Nil
  then show ?case by simp
next
  case (Cons x xs)
  then show ?case
    by (cases i) (auto simp: successively_Cons hd_conv_nth)
qed

text \<open>
  \<^bold>\<open>C3\<close>, window contiguity: every call of \<open>reportServerUsageMetrics\<close> builds one
  report and leaves the cursor at that report's \<open>endUtcMs\<close>, whatever the outcome of
  the delivery; and in every run of the publisher, of any two reports built one after
  the other the second starts where the first ends.
\<close>

theorem window_contiguity:
  "builtReports (fst (snd (reportServerUsageMetrics f env usage p)))
     = [buildReport f (HourlyEnv.clockNow env) usage p] \<and>
   reportStartTimestampMs (snd (snd (reportServerUsageMetrics f env usage p)))
     = endUtcMs (buildReport f (HourlyEnv.clockNow env) usage p) \<and>
   (\<forall>i. Suc i < length (builtReports (fst (run f v evs p))) \<longrightarrow>
      startUtcMs (builtReports (fst (run f v evs p)) ! Suc i) =
      endUtcMs (builtReports (fst (run f v evs p)) ! i))"
proof -
  obtain res effs p' where r: "reportServerUsageMetrics f env usage p = (res, effs, p')"
    by (cases "reportServerUsageMetrics f env usage p")
  from reportServerUsageMetrics_built [OF r] r
  have one: "builtReports (fst (snd (reportServerUsageMetrics f env usage p)))
       = [buildReport f (HourlyEnv.clockNow env) usage p] \<and>
     reportStartTimestampMs (snd (snd (reportServerUsageMetrics f env usage p)))
       = endUtcMs (buildReport f (HourlyEnv.clockNow env) usage p)"
    by (simp add: buildReport_window)
  have "successively (\<lambda>a b. startUtcMs b = endUtcMs a) (builtReports (fst (run f v evs p)))"
    using run_chain [of f v evs p "fst (run f v evs p)" "snd (run f v evs p)"] by simp
  then have "\<forall>i. Suc i < length (builtReports (fst (run f v evs p))) \<longrightarrow>
      startUtcMs (builtReports (fst (run f v evs p)) ! Suc i) =
      endUtcMs (builtReports (fst (run f v evs p)) ! i)"
    by (auto dest: successively_nth)
  with one show ?thesis by blast
qed

text \<open>
  Witness for \<^bold>\<open>C3\<close>: two hourly ticks with a daily tick between them; the delivery
  of the first report fails with status 503, and the second report starts at the end
  of the first all the same.
\<close>

theorem window_contiguity_witness:
  "Suc 0 < length (builtReports (fst (run Some ''1.0.0''
       [HourlyTick (hourlyAt 3600000 [usageUS] status503), DailyTick (dailyAt 5000000),
        HourlyTick (hourlyAt 7200000 [usageUS] (Inr ()))] sharingPublisher))) \<and>
   startUtcMs (builtReports (fst (run Some ''1.0.0''
       [HourlyTick (hourlyAt 3600000 [usageUS] status503), DailyTick (dailyAt 5000000),
        HourlyTick (hourlyAt 7200000 [usageUS] (Inr ()))] sharingPublisher)) ! Suc 0) =
   endUtcMs (builtReports (fst (run Some ''1.0.0''
       [HourlyTick (hourlyAt 3600000 [usageUS] status503), DailyTick (dailyAt 5000000),
        HourlyTick (hourlyAt 7200000 [usageUS] (Inr ()))] sharingPublisher)) ! 0)"
proof -
  have l: "Suc 0 < length (builtReports (fst (run Some ''1.0.0''
       [HourlyTick (hourlyAt 3600000 [usageUS] status503), DailyTick (dailyAt 5000000),
        HourlyTick (hourlyAt 7200000 [usageUS] (Inr ()))] sharingPublisher)))"
    by (simp add: tick_defs)
  from window_contiguity [of Some "hourlyAt 3600000 [usageUS] status503" "[usageUS]"
      sharingPublisher "''1.0.0''"
      "[HourlyTick (hourlyAt 3600000 [usageUS] status503), DailyTick (dailyAt 5000000),
        HourlyTick (hourlyAt 7200000 [usageUS] (Inr ()))]"] l
  show ?thesis by blast
qed

subsection \<open>The opt-in flag\<close>

lemma disabled_step:
  assumes "metricsEnabled (serverConfig p) = Boolean False" and "e \<noteq> StartSharing"
  shows "set (fst (step f v e p)) \<subseteq> {ConfigWrite} \<and> snd (step f v e p) = p"
  using assms
  by (cases e)
    (auto simp: stopSharing_def hourlyTick_def dailyTick_def isSharingEnabled_def js_or_def)

lemma disabled_run:
  assumes "metricsEnabled (serverConfig p) = Boolean False" and "StartSharing \<notin> set evs"
  shows "set (fst (run f v evs p)) \<subseteq> {ConfigWrite} \<and> snd (run f v evs p) = p"
  using assms
proof (induction evs)
  case Nil
  then show ?case by simp
next
  case (Cons e es)
  then have e: "e \<noteq> StartSharing" and es: "StartSharing \<notin> set es" by auto
  from disabled_step [OF Cons.prems(1) e, of f v] Cons.IH [OF Cons.prems(1) es]
  show ?case by (auto split: prod.splits)
qed

text \<open>
  \<^bold>\<open>C5\<close>, opt-out gating: after \<open>stopSharing()\<close>, in every sequence of events that
  contains no \<open>startSharing()\<close>, the timer ticks are no-ops: the only effects of the
  run are the configuration writes of further \<open>stopSharing()\<close> calls, so there is no
  usage fetch and no call of the metrics collector, and the publisher, its cursor
  included, stays as \<open>stopSharing()\<close> left it.
\<close>

theorem opt_out_gating:
  assumes "StartSharing \<notin> set evs"
  shows "set (fst (run f v evs (snd (stopSharing p)))) \<subseteq> {ConfigWrite} \<and>
         snd (run f v evs (snd (stopSharing p))) = snd (stopSharing p)"
  using disabled_run [of "snd (stopSharing p)" evs f v] assms
  by (simp add: stopSharing_def)

text \<open>Witness for \<^bold>\<open>C5\<close>: a publisher that was sharing is stopped; an hourly tick with
  usage to report and a daily tick follow, and nothing is fetched or delivered.\<close>

theorem opt_out_gating_witness:
  "StartSharing \<notin> set [HourlyTick (hourlyAt 3600000 [usageUS] (Inr ())),
                        DailyTick (dailyAt 5000000)] \<and>
   set (fst (run Some ''1.0.0''
          [HourlyTick (hourlyAt 3600000 [usageUS] (Inr ())), DailyTick (dailyAt 5000000)]
          (snd (stopSharing sharingPublisher)))) \<subseteq> {ConfigWrite} \<and>
   snd (run Some ''1.0.0''
          [HourlyTick (hourlyAt 3600000 [usageUS] (Inr ())), DailyTick (dailyAt 5000000)]
          (snd (stopSharing sharingPublisher))) = snd (stopSharing sharingPublisher)"
proof -
  have n: "StartSharing \<notin> set [HourlyTick (hourlyAt 3600000 [usageUS] (Inr ())),
                        DailyTick (dailyAt 5000000)]" by simp
  from opt_out_gating [OF n, of Some "''1.0.0''" sharingPublisher] n
  show ?thesis by blast
qed

text \<open>
  \<^bold>\<open>C10\<close>: when the persisted configuration has no field \<open>metricsEnabled\<close>,
  \<open>isSharingEnabled()\<close> returns the boolean \<open>false\<close>, not \<open>undefined\<close>, and both timer
  ticks do nothing: sharing is off until \<open>startSharing()\<close> is called.
\<close>

theorem sharing_disabled_by_default:
  assumes "metricsEnabled (serverConfig p) = Undefined"
  shows "isSharingEnabled p = Boolean False \<and> hourlyTick f henv p = ([], p) \<and>
         dailyTick v denv p = ([], p) \<and>
         isSharingEnabled (snd (startSharing p)) = Boolean True"
  using assms
  by (simp add: isSharingEnabled_def js_or_def hourlyTick_def dailyTick_def startSharing_def)

text \<open>Witness for \<^bold>\<open>C10\<close>: a publisher loaded from a configuration without the field.\<close>

theorem sharing_disabled_by_default_witness:
  "metricsEnabled (serverConfig freshPublisher) = Undefined \<and>
   isSharingEnabled freshPublisher = Boolean False"
proof -
  have u: "metricsEnabled (serverConfig freshPublisher) = Undefined" by simp
  from sharing_disabled_by_default [OF u] u show ?thesis by blast
qed

section \<open>Properties of the transport\<close>

lemma settle_settled: "pr \<noteq> Pending \<Longrightarrow> settle evs pr = pr"
proof (induction evs arbitrary: pr)
  case Nil
  then show ?case by simp
next
  case (Cons ev evs)
  then show ?case by (cases ev; cases pr) (auto simp: onResponse_def)
qed

lemma onRequestEvent_settles: "onRequestEvent ev Pending \<noteq> Pending"
  by (cases ev) (simp_all add: onResponse_def)

lemma protocol_never_http: "protocol url \<noteq> ''http''"
  by (cases "scheme url" rule: rev_cases) (simp_all add: protocol_def)

lemma followRedirects_effects:
  "followRedirects k evs = (followed, emitted) \<Longrightarrow>
     modulesUsed followed = [] \<and> requestOptions followed = [] \<and> writtenBytes followed = []"
proof (induction k evs arbitrary: followed emitted rule: followRedirects.induct)
  case (2 redirectCount statusCode location rest)
  then show ?case
    by (auto split: if_splits prod.splits)
qed auto

lemma followRedirects_prefix:
  assumes "\<forall>ev \<in> set redirects. isRedirect ev" and "k + length redirects \<le> maxRedirects"
    and "\<not> isRedirect final"
  shows "followRedirects k (redirects @ final # rest)
      = (map (\<lambda>ev. FollowRedirect (locationOf ev)) redirects, final # rest)"
  using assms
proof (induction redirects arbitrary: k)
  case Nil
  then show ?case by (cases final) auto
next
  case (Cons ev redirects)
  from Cons.prems(1) obtain sc location where ev: "ev = ResponseWithLocation sc location"
    and red: "isRedirect (ResponseWithLocation sc location)"
    by (cases ev) auto
  from Cons.prems(2) have lim: "\<not> Suc k > maxRedirects"
    and k: "Suc k + length redirects \<le> maxRedirects" by simp_all
  from Cons.prems(1) have all: "\<forall>ev \<in> set redirects. isRedirect ev" by simp
  from Cons.IH [OF all k Cons.prems(3)] ev red lim show ?case
    by (simp del: isRedirect.simps)
qed

lemma requestsSent_append:
  "requestsSent (xs @ ys) = requestsSent xs + requestsSent ys"
  by (induction xs rule: requestsSent.induct) auto

lemma requestsSent_redirects:
  "requestsSent (map (\<lambda>ev. FollowRedirect (f ev)) evs) = length evs"
  by (induction evs) auto

lemma too_many_redirects:
  assumes "\<forall>ev \<in> set redirects. isRedirect ev" and "length redirects = Suc maxRedirects"
  shows "snd (postMetrics su url p body (redirects @ rest)) = Rejected tooManyRedirects \<and>
     requestsSent (fst (postMetrics su url p body (redirects @ rest))) = Suc maxRedirects"
proof -
  from assms(2) obtain front lst where sp: "redirects = front @ [lst]"
    and len: "length front = maxRedirects"
    by (cases redirects rule: rev_cases) auto
  from assms(1) sp have fr: "\<forall>ev \<in> set front. isRedirect ev" and lr: "isRedirect lst" by auto
  from lr obtain sc location where lst: "lst = ResponseWithLocation sc location"
    by (cases lst) auto
  have gen: "\<And>k. \<forall>ev \<in> set front. isRedirect ev \<Longrightarrow> k + length front = maxRedirects \<Longrightarrow>
      followRedirects k (front @ lst # rest)
        = (map (\<lambda>ev. FollowRedirect (locationOf ev)) front, ErrorEvent tooManyRedirects # rest)"
  proof (induction front)
    case Nil
    with lr lst show ?case by simp
  next
    case (Cons ev front)
    from Cons.prems(1) obtain sc' location' where ev: "ev = ResponseWithLocation sc' location'"
      and red: "isRedirect (ResponseWithLocation sc' location')"
      by (cases ev) auto
    from Cons.prems(2) have lim: "\<not> Suc k > maxRedirects"
      and k: "Suc k + length front = maxRedirects" by simp_all
    from Cons.prems(1) have all: "\<forall>ev \<in> set front. isRedirect ev" by simp
    from Cons.IH [OF all k] ev red lim show ?case
      by (simp del: isRedirect.simps)
  qed
  from gen [of 0, OF fr] len
  have f: "followRedirects 0 (redirects @ rest)
      = (map (\<lambda>ev. FollowRedirect (locationOf ev)) front, ErrorEvent tooManyRedirects # rest)"
    by (simp add: sp)
  show ?thesis
    by (simp add: postMetrics_def f settle_settled requestsSent_append requestsSent_redirects len)
qed

lemma postMetrics_module: "modulesUsed (fst (postMetrics su url p body evs)) = [https]"
proof -
  obtain followed emitted where f: "followRedirects 0 evs = (followed, emitted)"
    by (cases "followRedirects 0 evs")
  from followRedirects_effects [OF f] have "modulesUsed followed = []" by simp
  with f show ?thesis
    by (simp add: postMetrics_def protocol_never_http)
qed

lemma postMetrics_contentLength:
  "map (contentLength \<circ> headers) (requestOptions (fst (postMetrics su url p body evs)))
     = [length body]"
proof -
  obtain followed emitted where f: "followRedirects 0 evs = (followed, emitted)"
    by (cases "followRedirects 0 evs")
  from followRedirects_effects [OF f] have "requestOptions followed = []" by simp
  with f show ?thesis
    by (simp add: postMetrics_def)
qed

lemma length_utf8Bytes:
  "length (utf8Bytes v) = length v + length (filter (\<lambda>c. \<not> (of_char c :: nat) < 0x80) v)"
  by (induction v) (auto simp: utf8Bytes_def utf8Char_def)

lemma postMetrics_written:
  "writtenBytes (fst (postMetrics su url p body evs)) = utf8Bytes body"
proof -
  obtain followed emitted where f: "followRedirects 0 evs = (followed, emitted)"
    by (cases "followRedirects 0 evs")
  from followRedirects_effects [OF f] have "writtenBytes followed = []" by simp
  with f show ?thesis
    by (simp add: postMetrics_def)
qed

lemma postMetrics_ascii_body:
  assumes "\<forall>c \<in> set body. (of_char c :: nat) < 0x80"
  shows "map (contentLength \<circ> headers) (requestOptions (fst (postMetrics su url p body evs)))
     = [length (writtenBytes (fst (postMetrics su url p body evs)))]"
proof -
  from assms have "filter (\<lambda>c. \<not> (of_char c :: nat) < 0x80) body = []"
    by (simp add: filter_empty_conv)
  then show ?thesis
    by (simp add: postMetrics_contentLength postMetrics_written length_utf8Bytes)
qed

text \<open>
  \<^bold>\<open>C4\<close>, protocol selection, where the code departs from the claim: for the service
  URL \<open>http://metrics.example.org\<close>, whose scheme is plain HTTP, \<open>url.protocol\<close> is
  \<open>http:\<close> with its colon, the comparison with \<open>'http'\<close> fails, and the single request
  is made on the module \<open>https\<close>.
\<close>

theorem plain_http_posts_over_https:
  "scheme \<lparr>scheme = ''http'', host = ''metrics.example.org''\<rparr> = ''http'' \<and>
   protocol \<lparr>scheme = ''http'', host = ''metrics.example.org''\<rparr> = ''http:'' \<and>
   modulesUsed (fst (postMetrics ''http://metrics.example.org''
       \<lparr>scheme = ''http'', host = ''metrics.example.org''\<rparr> ''/connections'' ''{}'' [Response 200]))
     = [https]"
  by (simp add: postMetrics_def protocol_def)

text \<open>
  \<^bold>\<open>C8\<close>, as stated by the specification, fails: every status code outside
  \<open>[200, 300)\<close> is claimed to reject the promise after exactly one request. The POST
  below is answered with status 302 and a \<open>Location\<close> header; the library follows the
  redirect with a second request, which is answered with status 200, and the promise
  is fulfilled.
\<close>

theorem redirected_post_counterexample:
  "snd (postMetrics ''https://metrics.example.org''
         \<lparr>scheme = ''https'', host = ''metrics.example.org''\<rparr> ''/connections'' ''{}''
         [ResponseWithLocation 302 ''https://other.example.org/connections'', Response 200])
     = Fulfilled \<and>
   requestsSent (fst (postMetrics ''https://metrics.example.org''
         \<lparr>scheme = ''https'', host = ''metrics.example.org''\<rparr> ''/connections'' ''{}''
         [ResponseWithLocation 302 ''https://other.example.org/connections'', Response 200]))
     = 2"
  by (simp add: postMetrics_def maxRedirects_def onResponse_def)

text \<open>
  \<^bold>\<open>C8\<close>, amended: for every POST, \<open>postMetrics\<close> calls \<open>request\<close> once, and the
  library follows each response that has a status code in \<open>[300, 400)\<close> and a
  \<open>Location\<close> header by one further request. When at most 21 such redirects come
  first, the promise is settled by the first event \<open>final\<close> that is not one of them:
  it is fulfilled exactly when \<open>final\<close> is a response with a status code in
  \<open>[200, 300)\<close>; a response with any other status code rejects it with an error that
  carries the status code; an error rejects it with that error. The number of requests
  sent is one more than the number of redirects followed, so it is exactly one when
  the first response is not a redirect.
\<close>

theorem post_outcome_after_redirects:
  assumes "\<forall>ev \<in> set redirects. isRedirect ev" and "length redirects \<le> maxRedirects"
    and "\<not> isRedirect final"
  shows "length (modulesUsed (fst (postMetrics su url p body (redirects @ final # rest)))) = 1 \<and>
     requestsSent (fst (postMetrics su url p body (redirects @ final # rest)))
       = Suc (length redirects) \<and>
     snd (postMetrics su url p body (redirects @ final # rest)) =
       (case final of
          Response sc \<Rightarrow>
            if 200 \<le> sc \<and> sc < 300 then Fulfilled
            else Rejected (''metrics server request failed with status code '' @ decimalDigits sc)
        | ResponseWithLocation sc location \<Rightarrow>
            if 200 \<le> sc \<and> sc < 300 then Fulfilled
            else Rejected (''metrics server request failed with status code '' @ decimalDigits sc)
        | ErrorEvent e \<Rightarrow> Rejected e) \<and>
     (snd (postMetrics su url p body (redirects @ final # rest)) = Fulfilled \<longleftrightarrow>
        (\<exists>sc. 200 \<le> sc \<and> sc < 300 \<and>
           (final = Response sc \<or> (\<exists>location. final = ResponseWithLocation sc location))))"
proof -
  from assms(2) have k: "0 + length redirects \<le> maxRedirects" by simp
  from followRedirects_prefix [OF assms(1) k assms(3), of rest]
  have f: "followRedirects 0 (redirects @ final # rest)
      = (map (\<lambda>ev. FollowRedirect (locationOf ev)) redirects, final # rest)" .
  have m: "length (modulesUsed (fst (postMetrics su url p body (redirects @ final # rest)))) = 1"
    by (simp add: postMetrics_module)
  have n: "requestsSent (fst (postMetrics su url p body (redirects @ final # rest)))
       = Suc (length redirects)"
    by (simp add: postMetrics_def f requestsSent_append requestsSent_redirects)
  have s: "snd (postMetrics su url p body (redirects @ final # rest))
       = onRequestEvent final Pending"
    by (simp add: postMetrics_def f settle_settled onRequestEvent_settles)
  show ?thesis
  proof (cases final)
    case (Response sc)
    with m n s show ?thesis by (simp add: onResponse_def)
  next
    case (ErrorEvent e)
    with m n s show ?thesis by simp
  next
    case (ResponseWithLocation sc location)
    with m n s show ?thesis by (simp add: onResponse_def)
  qed
qed

text \<open>
  Witness for \<^bold>\<open>C8\<close>: two redirects are followed and the third request is answered
  with status 503, which rejects the promise with the status code in the error; three
  requests have been sent, one of them by the call of \<open>request\<close>.
\<close>

theorem post_outcome_after_redirects_witness:
  "isRedirect (ResponseWithLocation 301 ''/v2/connections'') \<and>
   isRedirect (ResponseWithLocation 307 ''https://other.example.org/connections'') \<and>
   length [ResponseWithLocation 301 ''/v2/connections'',
           ResponseWithLocation 307 ''https://other.example.org/connections'']
     \<le> maxRedirects \<and>
   \<not> isRedirect (Response 503) \<and>
   requestsSent (fst (postMetrics ''https://metrics.example.org''
       \<lparr>scheme = ''https'', host = ''metrics.example.org''\<rparr> ''/connections'' ''{}''
       ([ResponseWithLocation 301 ''/v2/connections'',
         ResponseWithLocation 307 ''https://other.example.org/connections'']
        @ Response 503 # []))) = 3 \<and>
   snd (postMetrics ''https://metrics.example.org''
       \<lparr>scheme = ''https'', host = ''metrics.example.org''\<rparr> ''/connections'' ''{}''
       ([ResponseWithLocation 301 ''/v2/connections'',
         ResponseWithLocation 307 ''https://other.example.org/connections'']
        @ Response 503 # []))
     = Rejected ''metrics server request failed with status code 503''"
proof -
  have r: "\<forall>ev \<in> set [ResponseWithLocation 301 ''/v2/connections'',
                 ResponseWithLocation 307 ''https://other.example.org/connections''].
      isRedirect ev" by simp
  have l: "length [ResponseWithLocation 301 ''/v2/connections'',
           ResponseWithLocation 307 ''https://other.example.org/connections'']
     \<le> maxRedirects" by (simp add: maxRedirects_def)
  have f: "\<not> isRedirect (Response 503)" by simp
  have d: "decimalDigits 503 = ''503''" by (simp add: decimalDigits.simps)
  from post_outcome_after_redirects [OF r l f, of "''https://metrics.example.org''"
      "\<lparr>scheme = ''https'', host = ''metrics.example.org''\<rparr>" "''/connections''" "''{}''" "[]"]
    l f d
  show ?thesis by simp
qed

subsection \<open>The length of the body\<close>

lemma sample_digits:
  "decimalDigits 3600000 = ''3600000''" "decimalDigits 1000 = ''1000''" "decimalDigits 0 = ''0''"
  by (simp_all add: decimalDigits.simps)

text \<open>The JSON text of a report with one user report whose country is the string of
  the single character \<open>0xE9\<close> (e with acute accent).\<close>

lemma sample_report_json:
  "stringifyHourlyReport
     \<lparr>HourlyServerMetricsReportJson.serverId = ''srv'', startUtcMs = 0, endUtcMs = 3600000,
      userReports = [\<lparr>userId = ''u'', bytesTransferred = 1000,
                      HourlyUserMetricsReportJson.countries = [[CHR 0xE9]]\<rparr>]\<rparr> =
   ''{'' @ [CHR 0x22] @ ''serverId'' @ [CHR 0x22] @ '':'' @ [CHR 0x22] @ ''srv'' @ [CHR 0x22] @
   '','' @ [CHR 0x22] @ ''startUtcMs'' @ [CHR 0x22] @ '':0,'' @
   [CHR 0x22] @ ''endUtcMs'' @ [CHR 0x22] @ '':3600000,'' @
   [CHR 0x22] @ ''userReports'' @ [CHR 0x22] @ '':[{'' @
   [CHR 0x22] @ ''userId'' @ [CHR 0x22] @ '':'' @ [CHR 0x22] @ ''u'' @ [CHR 0x22] @ '','' @
   [CHR 0x22] @ ''bytesTransferred'' @ [CHR 0x22] @ '':1000,'' @
   [CHR 0x22] @ ''countries'' @ [CHR 0x22] @ '':['' @ [CHR 0x22] @ [CHR 0xE9] @ [CHR 0x22] @
   '']}]}''"
  by (simp add: stringifyHourlyReport_def stringifyUserReport_def quoteJSONString_def
      quoteJSONChar_def numberToString_def sample_digits)

text \<open>
  \<^bold>\<open>C9\<close>, the request headers, where the code departs from the claim: the report
  below has one user report whose country is the string of the single character
  \<open>0xE9\<close>, which is not ASCII. The request carries the \<open>Content-Type\<close>
  \<open>application/json\<close>, and its \<open>Content-Length\<close> is 125, the number of characters of
  the JSON text (\<open>reportJson.length\<close>), while the body written has 126 bytes.
\<close>

theorem content_length_counts_characters:
  "map (contentType \<circ> headers) (requestOptions (fst (restCollectServerUsageMetrics
       ''https://metrics.example.org'' \<lparr>scheme = ''https'', host = ''metrics.example.org''\<rparr>
       \<lparr>HourlyServerMetricsReportJson.serverId = ''srv'', startUtcMs = 0, endUtcMs = 3600000,
        userReports = [\<lparr>userId = ''u'', bytesTransferred = 1000,
                        HourlyUserMetricsReportJson.countries = [[CHR 0xE9]]\<rparr>]\<rparr> [])))
     = [''application/json''] \<and>
   map (contentLength \<circ> headers) (requestOptions (fst (restCollectServerUsageMetrics
       ''https://metrics.example.org'' \<lparr>scheme = ''https'', host = ''metrics.example.org''\<rparr>
       \<lparr>HourlyServerMetricsReportJson.serverId = ''srv'', startUtcMs = 0, endUtcMs = 3600000,
        userReports = [\<lparr>userId = ''u'', bytesTransferred = 1000,
                        HourlyUserMetricsReportJson.countries = [[CHR 0xE9]]\<rparr>]\<rparr> [])))
     = [125] \<and>
   length (writtenBytes (fst (restCollectServerUsageMetrics
       ''https://metrics.example.org'' \<lparr>scheme = ''https'', host = ''metrics.example.org''\<rparr>
       \<lparr>HourlyServerMetricsReportJson.serverId = ''srv'', startUtcMs = 0, endUtcMs = 3600000,
        userReports = [\<lparr>userId = ''u'', bytesTransferred = 1000,
                        HourlyUserMetricsReportJson.countries = [[CHR 0xE9]]\<rparr>]\<rparr> [])))
     = 126"
  unfolding restCollectServerUsageMetrics_def sample_report_json
  by (simp add: postMetrics_def length_utf8Bytes)

end
